theory Spec2Isabelle
  imports Complex_Main
begin

section \<open>Python values\<close>

text \<open>
  The program works on untyped nested data (\<open>Dict[str, Any]\<close>): decoded JSON, or the
  \<open>.dict()\<close> of a pydantic model. A value is \<open>None\<close>, a bool, an int (unbounded), a
  float, a string, a list or a dict. A dict is kept as the list of its items in insertion
  order; a Python dict never holds a key twice, which is the predicate \<open>dict_ok\<close>.
  Floats are idealised as exact rationals: binary64 rounding, infinities, NaN and
  OverflowError are not part of the model. Equality of two model values implies \<open>==\<close> of
  the Python values (Python's \<open>==\<close> moreover ignores the order of a dict's items).
\<close>

datatype pyval =
    PNone
  | PBool bool
  | PInt int
  | PFloat rat
  | PStr string
  | PList "pyval list"
  | PDict "(string \<times> pyval) list"

type_synonym pydict = "(string \<times> pyval) list"

datatype error =
    AttributeError
  | KeyError
  | TypeError
  | ZeroDivisionError
  | RuntimeError
  | RecursionError
  | ValidationError "string list"

definition keys :: "(string \<times> 'v) list \<Rightarrow> string list" where
  "keys d = map fst d"

definition dict_ok :: "(string \<times> 'v) list \<Rightarrow> bool" where
  "dict_ok d = distinct (keys d)"

text \<open>\<open>d[key] = val\<close>: an existing key keeps its place, a new key goes to the end.\<close>

fun setitem :: "(string \<times> 'v) list \<Rightarrow> string \<Rightarrow> 'v \<Rightarrow> (string \<times> 'v) list" where
  "setitem [] key val = [(key, val)]"
| "setitem ((k, v) # d) key val =
     (if k = key then (k, val) # d else (k, v) # setitem d key val)"

text \<open>\<open>d.get(key, default)\<close>.\<close>

definition dict_get :: "(string \<times> 'v) list \<Rightarrow> string \<Rightarrow> 'v \<Rightarrow> 'v" where
  "dict_get d key dflt = (case map_of d key of None \<Rightarrow> dflt | Some v \<Rightarrow> v)"

section \<open>utils.py: the merge of two creator records, on values\<close>

text \<open>
  \<open>recursive_merge\<close> is the inner function of \<open>merge_content_creator_info\<close>;
  \<open>merge_items\<close> is its loop \<open>for key, val in update.items()\<close>, which assigns into
  \<open>base\<close>. This is the value the call returns when its two arguments are trees that share
  no object (as decoded JSON is); what the call does to the objects it is given is the
  subject of the store model further down.
\<close>

fun recursive_merge :: "pyval \<Rightarrow> pyval \<Rightarrow> pyval"
  and merge_items :: "pydict \<Rightarrow> pydict \<Rightarrow> pydict" where
  "recursive_merge (PDict base) (PDict update) = PDict (merge_items base update)"
| "recursive_merge (PList base) (PList update) = PList (base @ update)"
| "recursive_merge base update = update"
| "merge_items base [] = base"
| "merge_items base ((key, val) # rest) =
     merge_items
       (case map_of base key of
          Some old \<Rightarrow> setitem base key (recursive_merge old val)
        | None \<Rightarrow> setitem base key val)
       rest"

text \<open>
  \<open>merge_content_creator_info(source1: Dict, source2: Dict)\<close>: \<open>merged = source1.copy()\<close>,
  then \<open>recursive_merge(merged, source2)\<close>. Both arguments are dicts by the signature,
  so the first branch of \<open>recursive_merge\<close> is the one taken and the result is a dict.
\<close>

definition merge_content_creator_info :: "pydict \<Rightarrow> pydict \<Rightarrow> pydict" where
  "merge_content_creator_info source1 source2 = merge_items source1 source2"

section \<open>utils.py: the merge of two creator records, on objects\<close>

text \<open>
  Python passes references, and \<open>recursive_merge\<close> assigns into the dict it is given.
  To say what a call does to its arguments, objects live in a store: an address is an
  index into the list of objects, allocation appends. A list or dict holds the addresses
  of its elements. The stores handed to the functions below are closed: every address
  they hold is below the length of the store (Python has no dangling reference).
\<close>

type_synonym addr = nat

datatype obj =
    ONone
  | OBool bool
  | OInt int
  | OFloat rat
  | OStr string
  | OList "addr list"
  | ODict "(string \<times> addr) list"

type_synonym store = "obj list"

text \<open>The items of the dict at an address (only ever asked of a dict).\<close>

definition dict_items :: "store \<Rightarrow> addr \<Rightarrow> (string \<times> addr) list" where
  "dict_items s a = (case s ! a of ODict d \<Rightarrow> d | _ \<Rightarrow> [])"

text \<open>\<open>base[key] = val\<close> on the dict object at address \<open>base\<close>.\<close>

definition store_setitem :: "store \<Rightarrow> addr \<Rightarrow> string \<Rightarrow> addr \<Rightarrow> store" where
  "store_setitem s base key val = s[base := ODict (setitem (dict_items s base) key val)]"

text \<open>
  The loop \<open>for key, val in update.items()\<close> of \<open>recursive_merge\<close>, with \<open>rec\<close> the
  recursive call. The iterator walks the live dict by position: \<open>n\<close> is the size of
  \<open>update\<close> when the loop started, and every step first checks that the size is still
  \<open>n\<close> (\<open>RuntimeError: dictionary changed size during iteration\<close>), also the step after
  the last item.
\<close>

fun items_loop ::
  "(store \<Rightarrow> addr \<Rightarrow> addr \<Rightarrow> error + addr \<times> store) \<Rightarrow> nat \<Rightarrow> addr \<Rightarrow> addr \<Rightarrow>
   nat list \<Rightarrow> store \<Rightarrow> error + store" where
  "items_loop rec n base update [] s =
     (if length (dict_items s update) \<noteq> n then Inl RuntimeError else Inr s)"
| "items_loop rec n base update (i # rest) s =
     (if length (dict_items s update) \<noteq> n then Inl RuntimeError
      else
        (case dict_items s update ! i of (key, val) \<Rightarrow>
           (case map_of (dict_items s base) key of
              Some old \<Rightarrow>
                (case rec s old val of
                   Inl e \<Rightarrow> Inl e
                 | Inr (r, s') \<Rightarrow> items_loop rec n base update rest (store_setitem s' base key r))
            | None \<Rightarrow> items_loop rec n base update rest (store_setitem s base key val))))"

text \<open>
  \<open>recursive_merge(base, update)\<close> on addresses: it returns the address of its result
  and the store it leaves. The first argument counts the nested calls the interpreter
  still allows; at zero the call raises RecursionError (which a cyclic structure reaches).
  Two dicts: \<open>base\<close> is written in place and returned. Two lists: \<open>base + update\<close> is a new
  list. Otherwise \<open>update\<close> itself is returned.
\<close>

primrec recursive_merge_obj :: "nat \<Rightarrow> store \<Rightarrow> addr \<Rightarrow> addr \<Rightarrow> error + addr \<times> store" where
  "recursive_merge_obj 0 s base update = Inl RecursionError"
| "recursive_merge_obj (Suc depth) s base update =
     (case (s ! base, s ! update) of
        (ODict bd, ODict ud) \<Rightarrow>
          (case items_loop (recursive_merge_obj depth) (length ud) base update
                  [0..<length ud] s of
             Inl e \<Rightarrow> Inl e
           | Inr s' \<Rightarrow> Inr (base, s'))
      | (OList bl, OList ul) \<Rightarrow> Inr (length s, s @ [OList (bl @ ul)])
      | _ \<Rightarrow> Inr (update, s))"

text \<open>
  \<open>merge_content_creator_info\<close> on addresses. \<open>merged = source1.copy()\<close> is a shallow
  copy: a new dict object holding the same addresses as \<open>source1\<close>.
\<close>

definition merge_content_creator_info_obj ::
  "nat \<Rightarrow> store \<Rightarrow> addr \<Rightarrow> addr \<Rightarrow> error + addr \<times> store" where
  "merge_content_creator_info_obj depth s source1 source2 =
     (case s ! source1 of
        ODict d \<Rightarrow> recursive_merge_obj depth (s @ [ODict d]) (length s) source2
      | OList xs \<Rightarrow> recursive_merge_obj depth (s @ [OList xs]) (length s) source2
      | _ \<Rightarrow> Inl AttributeError)"

text \<open>
  The value an address stands for, read down to a given depth (\<open>None\<close> when the structure
  is deeper, as a cyclic one is).
\<close>

primrec value_at :: "nat \<Rightarrow> store \<Rightarrow> addr \<Rightarrow> pyval option" where
  "value_at 0 s a = None"
| "value_at (Suc depth) s a =
     (case s ! a of
        ONone \<Rightarrow> Some PNone
      | OBool b \<Rightarrow> Some (PBool b)
      | OInt i \<Rightarrow> Some (PInt i)
      | OFloat r \<Rightarrow> Some (PFloat r)
      | OStr t \<Rightarrow> Some (PStr t)
      | OList xs \<Rightarrow> map_option PList (those (map (value_at depth s) xs))
      | ODict d \<Rightarrow>
          map_option PDict
            (those (map (\<lambda>(k, x). map_option (Pair k) (value_at depth s x)) d)))"

section \<open>agent.py: the analysis of a creator record\<close>

text \<open>What Python's \<open>len\<close>, iteration, truth test and \<open>x.get(key, default)\<close> do on a value.\<close>

fun py_len :: "pyval \<Rightarrow> error + nat" where
  "py_len (PList xs) = Inr (length xs)"
| "py_len (PStr t) = Inr (length t)"
| "py_len (PDict d) = Inr (length d)"
| "py_len v = Inl TypeError"

fun py_iter :: "pyval \<Rightarrow> error + pyval list" where
  "py_iter (PList xs) = Inr xs"
| "py_iter (PStr t) = Inr (map (\<lambda>c. PStr [c]) t)"
| "py_iter (PDict d) = Inr (map (\<lambda>(k, v). PStr k) d)"
| "py_iter v = Inl TypeError"

fun truthy :: "pyval \<Rightarrow> bool" where
  "truthy PNone = False"
| "truthy (PBool b) = b"
| "truthy (PInt i) = (i \<noteq> 0)"
| "truthy (PFloat r) = (r \<noteq> 0)"
| "truthy (PStr t) = (t \<noteq> [])"
| "truthy (PList xs) = (xs \<noteq> [])"
| "truthy (PDict d) = (d \<noteq> [])"

fun py_get :: "pyval \<Rightarrow> string \<Rightarrow> pyval \<Rightarrow> error + pyval" where
  "py_get (PDict d) key dflt = Inr (dict_get d key dflt)"
| "py_get v key dflt = Inl AttributeError"

text \<open>The number a value is in arithmetic and comparisons (a bool is the int 0 or 1).\<close>

fun num_of :: "pyval \<Rightarrow> rat option" where
  "num_of (PBool b) = Some (if b then 1 else 0)"
| "num_of (PInt i) = Some (of_int i)"
| "num_of (PFloat r) = Some r"
| "num_of v = None"

text \<open>\<open>a / b\<close> on numbers: the exact quotient stands for the float Python returns.\<close>

definition true_div :: "rat \<Rightarrow> rat \<Rightarrow> error + pyval" where
  "true_div a b = (if b = 0 then Inl ZeroDivisionError else Inr (PFloat (a / b)))"

subsection \<open>\<open>_analyze_business\<close>\<close>

record business_analysis =
  total_businesses :: nat
  active_businesses :: nat
  average_revenue :: pyval

text \<open>\<open>sum(1 for b in businesses if b.get("is_active", False))\<close>, element by element.\<close>

fun count_active :: "pyval list \<Rightarrow> error + nat" where
  "count_active [] = Inr 0"
| "count_active (b # bs) =
     (case py_get b ''is_active'' (PBool False) of
        Inl e \<Rightarrow> Inl e
      | Inr flag \<Rightarrow>
          (case count_active bs of
             Inl e \<Rightarrow> Inl e
           | Inr n \<Rightarrow> Inr (if truthy flag then Suc n else n)))"

text \<open>
  \<open>sum(b.get("revenue", 0) for b in businesses)\<close>: the generator is consumed from the
  left, the running total starts at 0, and adding a value that is no number raises
  TypeError.
\<close>

fun sum_revenue :: "rat \<Rightarrow> pyval list \<Rightarrow> error + rat" where
  "sum_revenue acc [] = Inr acc"
| "sum_revenue acc (b # bs) =
     (case py_get b ''revenue'' (PInt 0) of
        Inl e \<Rightarrow> Inl e
      | Inr v \<Rightarrow>
          (case num_of v of
             None \<Rightarrow> Inl TypeError
           | Some r \<Rightarrow> sum_revenue (acc + r) bs))"

text \<open>
  The three entries of the returned dict are evaluated in the order written. In the
  conditional expression \<open>... if businesses else 0\<close> the test comes first, so nothing is
  summed or divided for an empty collection.
\<close>

definition analyze_business :: "pydict \<Rightarrow> error + business_analysis" where
  "analyze_business data =
     (let businesses = dict_get data ''businesses'' (PList []) in
      case py_len businesses of
        Inl e \<Rightarrow> Inl e
      | Inr n \<Rightarrow>
          (case py_iter businesses of
             Inl e \<Rightarrow> Inl e
           | Inr bs \<Rightarrow>
               (case count_active bs of
                  Inl e \<Rightarrow> Inl e
                | Inr active \<Rightarrow>
                    (if truthy businesses then
                       (case sum_revenue 0 bs of
                          Inl e \<Rightarrow> Inl e
                        | Inr total_revenue \<Rightarrow>
                            (case true_div total_revenue (of_nat n) of
                               Inl e \<Rightarrow> Inl e
                             | Inr avg \<Rightarrow>
                                 Inr \<lparr>total_businesses = n, active_businesses = active,
                                      average_revenue = avg\<rparr>))
                     else
                       Inr \<lparr>total_businesses = n, active_businesses = active,
                            average_revenue = PInt 0\<rparr>))))"

subsection \<open>\<open>_analyze_timelines\<close>\<close>

record timeline_analysis =
  career_start :: pyval
  milestone_frequency :: pyval

text \<open>The sort key \<open>lambda x: x.get("year", 0)\<close>, computed for every element first.\<close>

fun sort_keys :: "pyval list \<Rightarrow> error + pyval list" where
  "sort_keys [] = Inr []"
| "sort_keys (x # xs) =
     (case py_get x ''year'' (PInt 0) of
        Inl e \<Rightarrow> Inl e
      | Inr k \<Rightarrow> (case sort_keys xs of Inl e \<Rightarrow> Inl e | Inr ks \<Rightarrow> Inr (k # ks)))"

text \<open>The same key as a number, for elements whose key is one.\<close>

definition year_key :: "pyval \<Rightarrow> rat" where
  "year_key x =
     (case x of
        PDict d \<Rightarrow> (case num_of (dict_get d ''year'' (PInt 0)) of Some r \<Rightarrow> r | None \<Rightarrow> 0)
      | _ \<Rightarrow> 0)"

text \<open>\<open>events[0]["year"]\<close>: no default here.\<close>

fun year_item :: "pyval \<Rightarrow> error + pyval" where
  "year_item (PDict d) = (case map_of d ''year'' of None \<Rightarrow> Inl KeyError | Some y \<Rightarrow> Inr y)"
| "year_item v = Inl TypeError"

text \<open>
  \<open>sorted\<close> is a stable sort, and so is \<open>sort_key\<close> (insertion from the right, an element
  going before the equal ones already placed), so for numeric keys both give the same
  list. A key that is no number (a string, None, a list, a dict) makes the call raise
  TypeError: either in a comparison of the sort, or, when the keys compare among
  themselves, in \<open>datetime.now().year - events[0]["year"]\<close>; the model raises it at the
  sort. \<open>current_year\<close> is \<open>datetime.now().year\<close>.
\<close>

definition analyze_timelines :: "int \<Rightarrow> pydict \<Rightarrow> error + timeline_analysis" where
  "analyze_timelines current_year data =
     (case py_iter (dict_get data ''life_events'' (PList [])) of
        Inl e \<Rightarrow> Inl e
      | Inr xs \<Rightarrow>
          (case sort_keys xs of
             Inl e \<Rightarrow> Inl e
           | Inr ks \<Rightarrow>
               (if list_ex (\<lambda>k. num_of k = None) ks then Inl TypeError
                else
                  (case sort_key year_key xs of
                     [] \<Rightarrow> Inr \<lparr>career_start = PNone, milestone_frequency = PInt 0\<rparr>
                   | first # rest \<Rightarrow>
                       (case year_item first of
                          Inl e \<Rightarrow> Inl e
                        | Inr y \<Rightarrow>
                            (case num_of y of
                               None \<Rightarrow> Inl TypeError
                             | Some r \<Rightarrow>
                                 (case true_div (of_nat (length (first # rest)))
                                         (of_int current_year - r) of
                                    Inl e \<Rightarrow> Inl e
                                  | Inr freq \<Rightarrow>
                                      Inr \<lparr>career_start = y,
                                           milestone_frequency = freq\<rparr>)))))))"

section \<open>models.py: \<open>ChallengeObject\<close>\<close>

text \<open>
  \<open>ChallengeObject\<close> is a pydantic model: constructing one checks every field against
  its \<open>Field\<close> constraints and raises one ValidationError naming the fields that fail.
  The input here is already of the declared types (\<open>str\<close>, \<open>int\<close>, \<open>Optional[int]\<close>);
  a string's length counts its characters. \<open>le=datetime.now().year\<close> is evaluated once,
  when the class is defined: \<open>current_year\<close> is the year at that moment.
\<close>

record ChallengeObject =
  description :: string
  year :: int
  learnings :: string
  duration :: "int option"

definition field_errors :: "string \<Rightarrow> bool \<Rightarrow> string list" where
  "field_errors name ok = (if ok then [] else [name])"

definition new_ChallengeObject ::
  "int \<Rightarrow> string \<Rightarrow> int \<Rightarrow> string \<Rightarrow> int option \<Rightarrow> error + ChallengeObject" where
  "new_ChallengeObject current_year d y l dur =
     (let errs =
            field_errors ''description'' (10 \<le> length d \<and> length d \<le> 200)
          @ field_errors ''year'' (2005 \<le> y \<and> y \<le> current_year)
          @ field_errors ''learnings'' (10 \<le> length l \<and> length l \<le> 500)
          @ field_errors ''duration''
              (case dur of None \<Rightarrow> True | Some m \<Rightarrow> 1 \<le> m \<and> m \<le> 120)
      in if errs = [] then
           Inr \<lparr>description = d, year = y, learnings = l, duration = dur\<rparr>
         else Inl (ValidationError errs))"

section \<open>Predicates for stating the properties\<close>

text \<open>
  A life event the timeline analysis can order: a dict whose \<open>year\<close>, when it has one,
  is a number.
\<close>

definition numeric_year :: "pyval \<Rightarrow> bool" where
  "numeric_year e =
     (case e of
        PDict d \<Rightarrow> num_of (dict_get d ''year'' (PInt 0)) \<noteq> None
      | _ \<Rightarrow> False)"

section \<open>Properties of the merge\<close>

lemma setitem_absent: "key \<notin> set (keys d) \<Longrightarrow> setitem d key val = d @ [(key, val)]"
  by (induction d) (auto simp: keys_def)

lemma map_of_None_keys: "map_of d key = None \<longleftrightarrow> key \<notin> set (keys d)"
  by (simp add: keys_def map_of_eq_None_iff)

lemma map_of_setitem:
  "map_of (setitem d key val) k = (if k = key then Some val else map_of d k)"
  by (induction d) auto

text \<open>An update whose keys are all new to \<open>base\<close> is appended to it, in its own order.\<close>

lemma merge_items_disjoint:
  "distinct (keys update) \<Longrightarrow> set (keys base) \<inter> set (keys update) = {} \<Longrightarrow>
   merge_items base update = base @ update"
proof (induction update arbitrary: base)
  case Nil
  then show ?case by simp
next
  case (Cons item rest)
  obtain key val where item: "item = (key, val)" by (cases item)
  from Cons.prems item have absent: "key \<notin> set (keys base)"
    and d: "distinct (keys rest)" and nk: "key \<notin> set (keys rest)"
    and disj: "set (keys base) \<inter> set (keys rest) = {}"
    by (auto simp: keys_def)
  from absent have none: "map_of base key = None" by (simp add: map_of_None_keys)
  have "set (keys (base @ [(key, val)])) \<inter> set (keys rest) = {}"
    using disj nk by (auto simp: keys_def)
  with Cons.IH [OF d]
  have "merge_items (base @ [(key, val)]) rest = (base @ [(key, val)]) @ rest"
    by blast
  with none absent item show ?case by (simp add: setitem_absent)
qed

text \<open>The merged dict, key by key.\<close>

lemma map_of_merge_items:
  "distinct (keys update) \<Longrightarrow>
   map_of (merge_items base update) k =
     (case map_of update k of
        None \<Rightarrow> map_of base k
      | Some val \<Rightarrow>
          (case map_of base k of
             None \<Rightarrow> Some val
           | Some old \<Rightarrow> Some (recursive_merge old val)))"
proof (induction update arbitrary: base)
  case Nil
  then show ?case by simp
next
  case (Cons item rest)
  obtain key val where item: "item = (key, val)" by (cases item)
  from Cons.prems item have d: "distinct (keys rest)" and nk: "key \<notin> set (keys rest)"
    by (auto simp: keys_def)
  from nk have none: "map_of rest key = None" by (simp add: map_of_None_keys)
  show ?case
    using Cons.IH [OF d] none item
    by (auto simp: map_of_setitem split: option.splits)
qed

text \<open>
  C4. The empty mapping is a two-sided identity of the merge: for every dict \<open>X\<close>
  (no key twice, as in every Python dict), \<open>merge({}, X)\<close> is \<open>X\<close> and \<open>merge(X, {})\<close>
  is \<open>X\<close>.
\<close>

theorem merge_empty_identity:
  assumes "dict_ok X"
  shows "merge_content_creator_info [] X = X \<and> merge_content_creator_info X [] = X"
proof -
  from assms have "merge_items [] X = [] @ X"
    by (intro merge_items_disjoint) (simp_all add: dict_ok_def keys_def)
  then show ?thesis by (simp add: merge_content_creator_info_def)
qed

theorem merge_empty_identity_witness:
  "dict_ok [(''x'', PList [PInt 1]), (''y'', PDict [(''z'', PNone)])]
   \<and> merge_content_creator_info [] [(''x'', PList [PInt 1]), (''y'', PDict [(''z'', PNone)])]
       = [(''x'', PList [PInt 1]), (''y'', PDict [(''z'', PNone)])]
   \<and> merge_content_creator_info [(''x'', PList [PInt 1]), (''y'', PDict [(''z'', PNone)])] []
       = [(''x'', PList [PInt 1]), (''y'', PDict [(''z'', PNone)])]"
proof -
  have ok: "dict_ok [(''x'', PList [PInt 1]), (''y'', PDict [(''z'', PNone)])]"
    by (simp add: dict_ok_def keys_def)
  from merge_empty_identity [OF ok] ok show ?thesis by blast
qed

text \<open>
  C5. Where \<open>base\<close> and \<open>update\<close> both hold a list at a key, the merged dict holds at
  that key the list of \<open>base\<close> followed by the list of \<open>update\<close>, every element kept, in
  order. So \<open>merge({"x":[1]}, {"x":[2]})\<close> is \<open>{"x":[1,2]}\<close>, \<open>merge({"x":[2]}, {"x":[1]})\<close>
  is \<open>{"x":[2,1]}\<close>, and the merge is not commutative.
\<close>

theorem merge_concatenates_sequences:
  "(\<forall>base update key xs ys.
      dict_ok update \<and> map_of base key = Some (PList xs) \<and> map_of update key = Some (PList ys)
      \<longrightarrow> map_of (merge_content_creator_info base update) key = Some (PList (xs @ ys)))
   \<and> merge_content_creator_info [(''x'', PList [PInt 1])] [(''x'', PList [PInt 2])]
       = [(''x'', PList [PInt 1, PInt 2])]
   \<and> merge_content_creator_info [(''x'', PList [PInt 2])] [(''x'', PList [PInt 1])]
       = [(''x'', PList [PInt 2, PInt 1])]
   \<and> merge_content_creator_info [(''x'', PList [PInt 1])] [(''x'', PList [PInt 2])]
       \<noteq> merge_content_creator_info [(''x'', PList [PInt 2])] [(''x'', PList [PInt 1])]"
proof (intro conjI allI impI)
  fix base update key xs ys
  assume h: "dict_ok update \<and> map_of base key = Some (PList xs)
             \<and> map_of update key = Some (PList ys)"
  then have "distinct (keys update)" by (simp add: dict_ok_def)
  from map_of_merge_items [OF this, of base key] h
  show "map_of (merge_content_creator_info base update) key = Some (PList (xs @ ys))"
    by (simp add: merge_content_creator_info_def)
qed (simp_all add: merge_content_creator_info_def)

theorem merge_concatenates_sequences_witness:
  "dict_ok [(''values'', PList [PStr ''Quality''])]
   \<and> map_of [(''name'', PStr ''n''), (''values'', PList [PStr ''Honesty'', PStr ''Quality''])]
        ''values'' = Some (PList [PStr ''Honesty'', PStr ''Quality''])
   \<and> map_of [(''values'', PList [PStr ''Quality''])] ''values'' = Some (PList [PStr ''Quality''])
   \<and> map_of (merge_content_creator_info
               [(''name'', PStr ''n''), (''values'', PList [PStr ''Honesty'', PStr ''Quality''])]
               [(''values'', PList [PStr ''Quality''])]) ''values''
       = Some (PList ([PStr ''Honesty'', PStr ''Quality''] @ [PStr ''Quality'']))"
proof -
  have h: "dict_ok [(''values'', PList [PStr ''Quality''])]
     \<and> map_of [(''name'', PStr ''n''), (''values'', PList [PStr ''Honesty'', PStr ''Quality''])]
          ''values'' = Some (PList [PStr ''Honesty'', PStr ''Quality''])
     \<and> map_of [(''values'', PList [PStr ''Quality''])] ''values''
          = Some (PList [PStr ''Quality''])"
    by (simp add: dict_ok_def keys_def)
  from merge_concatenates_sequences
  have "\<forall>base update key xs ys.
      dict_ok update \<and> map_of base key = Some (PList xs) \<and> map_of update key = Some (PList ys)
      \<longrightarrow> map_of (merge_content_creator_info base update) key = Some (PList (xs @ ys))"
    by (rule conjunct1)
  with h show ?thesis by blast
qed

text \<open>
  C6. For three dicts whose key sets are pairwise disjoint, merging is associative:
  \<open>merge(merge(a, b), c)\<close> equals \<open>merge(a, merge(b, c))\<close>. With no key in common the
  merge never descends, so nothing is asked of the nested values.
\<close>

theorem merge_assoc_disjoint:
  assumes "dict_ok a" and "dict_ok b" and "dict_ok c"
    and "set (keys a) \<inter> set (keys b) = {}"
    and "set (keys a) \<inter> set (keys c) = {}"
    and "set (keys b) \<inter> set (keys c) = {}"
  shows "merge_content_creator_info (merge_content_creator_info a b) c
         = merge_content_creator_info a (merge_content_creator_info b c)"
proof -
  from assms have ab: "merge_items a b = a @ b"
    by (intro merge_items_disjoint) (simp_all add: dict_ok_def)
  from assms have bc: "merge_items b c = b @ c"
    by (intro merge_items_disjoint) (simp_all add: dict_ok_def)
  from assms have "merge_items (a @ b) c = (a @ b) @ c"
    by (intro merge_items_disjoint) (auto simp: dict_ok_def keys_def)
  moreover from assms have "merge_items a (b @ c) = a @ (b @ c)"
    by (intro merge_items_disjoint) (auto simp: dict_ok_def keys_def)
  ultimately show ?thesis
    using ab bc by (simp add: merge_content_creator_info_def)
qed

theorem merge_assoc_disjoint_witness:
  "dict_ok [(''p'', PDict [(''k'', PInt 1)])] \<and> dict_ok [(''q'', PDict [(''l'', PInt 2)])]
   \<and> dict_ok [(''r'', PDict [(''m'', PInt 3)])]
   \<and> set (keys [(''p'', PDict [(''k'', PInt 1)])]) \<inter> set (keys [(''q'', PDict [(''l'', PInt 2)])]) = {}
   \<and> set (keys [(''p'', PDict [(''k'', PInt 1)])]) \<inter> set (keys [(''r'', PDict [(''m'', PInt 3)])]) = {}
   \<and> set (keys [(''q'', PDict [(''l'', PInt 2)])]) \<inter> set (keys [(''r'', PDict [(''m'', PInt 3)])]) = {}
   \<and> merge_content_creator_info
        (merge_content_creator_info [(''p'', PDict [(''k'', PInt 1)])]
           [(''q'', PDict [(''l'', PInt 2)])])
        [(''r'', PDict [(''m'', PInt 3)])]
     = merge_content_creator_info [(''p'', PDict [(''k'', PInt 1)])]
         (merge_content_creator_info [(''q'', PDict [(''l'', PInt 2)])]
            [(''r'', PDict [(''m'', PInt 3)])])"
proof -
  have 1: "dict_ok [(''p'', PDict [(''k'', PInt 1)])]"
    and 2: "dict_ok [(''q'', PDict [(''l'', PInt 2)])]"
    and 3: "dict_ok [(''r'', PDict [(''m'', PInt 3)])]"
    by (simp_all add: dict_ok_def keys_def)
  have 4: "set (keys [(''p'', PDict [(''k'', PInt 1)])])
             \<inter> set (keys [(''q'', PDict [(''l'', PInt 2)])]) = {}"
    and 5: "set (keys [(''p'', PDict [(''k'', PInt 1)])])
             \<inter> set (keys [(''r'', PDict [(''m'', PInt 3)])]) = {}"
    and 6: "set (keys [(''q'', PDict [(''l'', PInt 2)])])
             \<inter> set (keys [(''r'', PDict [(''m'', PInt 3)])]) = {}"
    by (simp_all add: keys_def)
  from merge_assoc_disjoint [OF 1 2 3 4 5 6] 1 2 3 4 5 6 show ?thesis by blast
qed

section \<open>What the merge does to its arguments\<close>

text \<open>
  C2. The claim: \<open>merge(base, update)\<close> leaves both inputs as they were, nested mappings
  included. The call below is \<open>merge({"a": {"x": 1}}, {"a": {"y": 2}})\<close>: \<open>base\<close> is the
  dict at address 2, \<open>update\<close> the dict at address 5. The copy taken of \<open>base\<close> is
  shallow, so the nested dict at address 1 is shared with the copy and is the one written:
  after the call \<open>base\<close> reads \<open>{"a": {"x": 1, "y": 2}}\<close>. The returned dict (address 6)
  is the merged value of the value model, and \<open>update\<close> reads as before.
\<close>

theorem merge_writes_nested_dict_of_base:
  "value_at 3
     [OInt 1, ODict [(''x'', 0)], ODict [(''a'', 1)],
      OInt 2, ODict [(''y'', 3)], ODict [(''a'', 4)]] 2
     = Some (PDict [(''a'', PDict [(''x'', PInt 1)])])
   \<and> merge_content_creator_info_obj 10
       [OInt 1, ODict [(''x'', 0)], ODict [(''a'', 1)],
        OInt 2, ODict [(''y'', 3)], ODict [(''a'', 4)]] 2 5
     = Inr (6, [OInt 1, ODict [(''x'', 0), (''y'', 3)], ODict [(''a'', 1)],
                OInt 2, ODict [(''y'', 3)], ODict [(''a'', 4)], ODict [(''a'', 1)]])
   \<and> value_at 3
       [OInt 1, ODict [(''x'', 0), (''y'', 3)], ODict [(''a'', 1)],
        OInt 2, ODict [(''y'', 3)], ODict [(''a'', 4)], ODict [(''a'', 1)]] 2
     = Some (PDict [(''a'', PDict [(''x'', PInt 1), (''y'', PInt 2)])])
   \<and> value_at 3
       [OInt 1, ODict [(''x'', 0), (''y'', 3)], ODict [(''a'', 1)],
        OInt 2, ODict [(''y'', 3)], ODict [(''a'', 4)], ODict [(''a'', 1)]] 6
     = Some (PDict (merge_content_creator_info
                      [(''a'', PDict [(''x'', PInt 1)])] [(''a'', PDict [(''y'', PInt 2)])]))
   \<and> value_at 3
       [OInt 1, ODict [(''x'', 0), (''y'', 3)], ODict [(''a'', 1)],
        OInt 2, ODict [(''y'', 3)], ODict [(''a'', 4)], ODict [(''a'', 1)]] 5
     = Some (PDict [(''a'', PDict [(''y'', PInt 2)])])"
  by code_simp

section \<open>Properties of the business analysis\<close>

text \<open>
  C3. The claim: \<open>active_businesses\<close> is the number of businesses whose \<open>status\<close> is
  \<open>active\<close>. The record below holds one business as \<open>BusinessObject(...).dict()\<close> gives
  it, with status \<open>active\<close>; the analysis reads the key \<open>is_active\<close>, which no
  \<open>BusinessObject\<close> has, and reports 0 active businesses.
\<close>

theorem active_businesses_ignores_status:
  "analyze_business
     [(''businesses'', PList
        [PDict [(''name'', PStr ''Merch Store''),
                (''description'', PStr ''Official merchandise''),
                (''year_started'', PInt 2020),
                (''annual_revenue'', PNone),
                (''business_type'', PStr ''merchandise''),
                (''status'', PStr ''active'')]])]
   = Inr \<lparr>total_businesses = 1, active_businesses = 0, average_revenue = PFloat 0\<rparr>"
  by (simp add: analyze_business_def dict_get_def true_div_def)

text \<open>
  C7. For a creator record with no businesses (the key absent, or an empty list) the
  business analysis returns, and its \<open>average_revenue\<close> is the integer 0: nothing is
  divided.
\<close>

theorem average_revenue_empty:
  assumes "dict_get data ''businesses'' (PList []) = PList []"
  shows "analyze_business data
         = Inr \<lparr>total_businesses = 0, active_businesses = 0, average_revenue = PInt 0\<rparr>"
  using assms by (simp add: analyze_business_def)

theorem average_revenue_empty_witness:
  "dict_get [(''life_events'', PList [PDict [(''year'', PInt 2018)]]), (''businesses'', PList [])]
      ''businesses'' (PList []) = PList []
   \<and> dict_get [(''life_events'', PList [])] ''businesses'' (PList []) = PList []
   \<and> analyze_business
        [(''life_events'', PList [PDict [(''year'', PInt 2018)]]), (''businesses'', PList [])]
       = Inr \<lparr>total_businesses = 0, active_businesses = 0, average_revenue = PInt 0\<rparr>
   \<and> analyze_business [(''life_events'', PList [])]
       = Inr \<lparr>total_businesses = 0, active_businesses = 0, average_revenue = PInt 0\<rparr>"
proof -
  have 1: "dict_get [(''life_events'', PList [PDict [(''year'', PInt 2018)]]),
                     (''businesses'', PList [])] ''businesses'' (PList []) = PList []"
    by (simp add: dict_get_def)
  have 2: "dict_get [(''life_events'', PList [])] ''businesses'' (PList []) = PList []"
    by (simp add: dict_get_def)
  from average_revenue_empty [OF 1] average_revenue_empty [OF 2] 1 2 show ?thesis by blast
qed

section \<open>Properties of the timeline analysis\<close>

text \<open>The first element of the stable sort is the first element of least key.\<close>

lemma hd_insort_key:
  "hd (insort_key f x xs) = (if xs = [] \<or> f x \<le> f (hd xs) then x else hd xs)"
  by (cases xs) auto

lemma sort_key_eq_Nil: "sort_key f xs = [] \<longleftrightarrow> xs = []"
  by (metis length_0_conv length_sort)

lemma hd_sort_key_arg_min: "xs \<noteq> [] \<Longrightarrow> hd (sort_key f xs) = arg_min_list f xs"
proof (induction f xs rule: arg_min_list.induct)
  case (1 f x)
  then show ?case by simp
next
  case (2 f x y zs)
  then have "hd (sort_key f (y # zs)) = arg_min_list f (y # zs)" by simp
  moreover have "sort_key f (y # zs) \<noteq> []" by (simp add: sort_key_eq_Nil)
  ultimately show ?case
    by (simp add: hd_insort_key Let_def del: sort_key_simps arg_min_list.simps
        add: sort_key_simps(2)[of f x "y # zs"] arg_min_list.simps(2)[of f x y zs])
next
  case (3 f)
  then show ?case by simp
qed

lemma sort_keys_numeric:
  "list_all numeric_year xs \<Longrightarrow>
   \<exists>ks. sort_keys xs = Inr ks \<and> \<not> list_ex (\<lambda>k. num_of k = None) ks"
proof (induction xs)
  case Nil
  then show ?case by simp
next
  case (Cons x xs)
  then obtain ks where ks: "sort_keys xs = Inr ks" "\<not> list_ex (\<lambda>k. num_of k = None) ks"
    by auto
  from Cons.prems obtain d where d: "x = PDict d" "num_of (dict_get d ''year'' (PInt 0)) \<noteq> None"
    by (auto simp: numeric_year_def split: pyval.splits)
  with ks show ?case by simp
qed

lemma analyze_timelines_nonempty:
  assumes events: "dict_get data ''life_events'' (PList []) = PList evs"
    and ne: "evs \<noteq> []"
    and num: "list_all numeric_year evs"
  shows "analyze_timelines current_year data =
     (case year_item (arg_min_list year_key evs) of
        Inl e \<Rightarrow> Inl e
      | Inr y \<Rightarrow>
          (case num_of y of
             None \<Rightarrow> Inl TypeError
           | Some r \<Rightarrow>
               (case true_div (of_nat (length evs)) (of_int current_year - r) of
                  Inl e \<Rightarrow> Inl e
                | Inr freq \<Rightarrow> Inr \<lparr>career_start = y, milestone_frequency = freq\<rparr>)))"
proof -
  from sort_keys_numeric [OF num] obtain ks
    where ks: "sort_keys evs = Inr ks" "\<not> list_ex (\<lambda>k. num_of k = None) ks" by blast
  from ne have "sort_key year_key evs \<noteq> []" by (simp add: sort_key_eq_Nil)
  then obtain first rest where fr: "sort_key year_key evs = first # rest"
    by (cases "sort_key year_key evs") auto
  then have "hd (sort_key year_key evs) = first" by simp
  with ne have first: "first = arg_min_list year_key evs" by (simp add: hd_sort_key_arg_min)
  have len: "length (first # rest) = length evs" by (simp flip: fr)
  show ?thesis
    unfolding analyze_timelines_def events
    using ks fr len first by (simp split: sum.splits option.splits)
qed

lemma analyze_timelines_empty:
  assumes "dict_get data ''life_events'' (PList []) = PList []"
  shows "analyze_timelines current_year data
         = Inr \<lparr>career_start = PNone, milestone_frequency = PInt 0\<rparr>"
  using assms by (simp add: analyze_timelines_def)

text \<open>
  C1. The claim: the milestone frequency is computed without ever dividing by zero, and
  is the event count when the earliest year is the current year. The record below holds
  one life event, valid as a \<open>LifeEventObject\<close>, dated the current year 2026: the
  divisor \<open>datetime.now().year - events[0]["year"]\<close> is 0 and the analysis raises
  ZeroDivisionError.
\<close>

theorem milestone_frequency_divides_by_zero:
  "analyze_timelines 2026
     [(''life_events'', PList
        [PDict [(''name'', PStr ''Channel Launch''),
                (''year'', PInt 2026),
                (''description'', PStr ''Started the channel''),
                (''impact'', PStr ''Began the career''),
                (''category'', PNone)]])]
   = Inl ZeroDivisionError"
  by (simp add: analyze_timelines_def dict_get_def true_div_def)

text \<open>
  C10. When the life events are dicts whose years, where present, are numbers, and the
  first event of least sort key (a missing year counting as 0) has no \<open>year\<close>, the
  timeline analysis raises KeyError: the default 0 is used by the sort key only, and
  \<open>events[0]["year"]\<close> has none.
\<close>

theorem missing_year_raises_KeyError:
  assumes events: "dict_get data ''life_events'' (PList []) = PList evs"
    and ne: "evs \<noteq> []"
    and num: "list_all numeric_year evs"
    and missing: "\<exists>d. arg_min_list year_key evs = PDict d \<and> map_of d ''year'' = None"
  shows "analyze_timelines current_year data = Inl KeyError"
proof -
  from missing obtain d where "arg_min_list year_key evs = PDict d" "map_of d ''year'' = None"
    by blast
  then have "year_item (arg_min_list year_key evs) = Inl KeyError" by simp
  with analyze_timelines_nonempty [OF events ne num, of current_year] show ?thesis by simp
qed

theorem missing_year_raises_KeyError_witness:
  "analyze_timelines 2026
     [(''life_events'', PList [PDict [(''name'', PStr ''Channel Launch''), (''year'', PInt 2018)],
                              PDict [(''name'', PStr ''First Video'')]])]
   = Inl KeyError"
proof -
  let ?evs = "[PDict [(''name'', PStr ''Channel Launch''), (''year'', PInt 2018)],
               PDict [(''name'', PStr ''First Video'')]]"
  have 1: "dict_get [(''life_events'', PList ?evs)] ''life_events'' (PList []) = PList ?evs"
    by (simp add: dict_get_def)
  have 2: "?evs \<noteq> []" by simp
  have 3: "list_all numeric_year ?evs" by (simp add: numeric_year_def dict_get_def)
  have 4: "\<exists>d. arg_min_list year_key ?evs = PDict d \<and> map_of d ''year'' = None"
    by (simp add: year_key_def dict_get_def)
  from missing_year_raises_KeyError [OF 1 2 3 4] show ?thesis .
qed

lemma year_key_int:
  "map_of d ''year'' = Some (PInt y) \<Longrightarrow> year_key (PDict d) = of_int y"
  by (simp add: year_key_def dict_get_def)

lemma career_start_nonempty:
  assumes events: "dict_get data ''life_events'' (PList []) = PList evs"
    and ne: "evs \<noteq> []"
    and years: "\<forall>e \<in> set evs. \<exists>d. e = PDict d \<and> map_of d ''year'' = Some (PInt (yr e))"
    and boundary: "Min (yr ` set evs) \<noteq> current_year"
  shows "\<exists>freq. analyze_timelines current_year data
           = Inr \<lparr>career_start = PInt (Min (yr ` set evs)), milestone_frequency = freq\<rparr>"
proof -
  let ?m = "arg_min_list year_key evs"
  have key: "year_key e = of_int (yr e)" if "e \<in> set evs" for e
  proof -
    from years that obtain d where "e = PDict d" "map_of d ''year'' = Some (PInt (yr e))"
      by blast
    then show ?thesis by (simp add: year_key_int)
  qed
  have "numeric_year e" if "e \<in> set evs" for e
  proof -
    from years that obtain d where "e = PDict d" "map_of d ''year'' = Some (PInt (yr e))"
      by blast
    then show ?thesis by (simp add: numeric_year_def dict_get_def)
  qed
  then have num: "list_all numeric_year evs" by (simp add: list_all_iff)
  from ne have m_in: "?m \<in> set evs" by (rule arg_min_list_in)
  with years obtain d where d: "?m = PDict d" "map_of d ''year'' = Some (PInt (yr ?m))"
    by blast
  have le: "yr ?m \<le> yr e" if "e \<in> set evs" for e
  proof -
    from ne have "year_key ?m = Min (year_key ` set evs)" by (rule f_arg_min_list_f)
    moreover from that have "Min (year_key ` set evs) \<le> year_key e"
      by (intro Min_le) simp_all
    ultimately have "year_key ?m \<le> year_key e" by simp
    then have "(of_int (yr ?m) :: rat) \<le> of_int (yr e)"
      by (simp only: key [OF that] key [OF m_in])
    then show ?thesis by (simp only: of_int_le_iff)
  qed
  have min: "Min (yr ` set evs) = yr ?m"
  proof (rule Min_eqI)
    show "finite (yr ` set evs)" by simp
    show "yr ?m \<le> y" if "y \<in> yr ` set evs" for y using that le by blast
    show "yr ?m \<in> yr ` set evs" using m_in by (rule imageI)
  qed
  from d have item: "year_item ?m = Inr (PInt (yr ?m))" by simp
  from boundary have "current_year \<noteq> yr ?m" unfolding min by blast
  then have nz: "(of_int current_year :: rat) - of_int (yr ?m) \<noteq> 0" by simp
  have "analyze_timelines current_year data
          = Inr \<lparr>career_start = PInt (yr ?m),
                 milestone_frequency =
                   PFloat (of_nat (length evs) / (of_int current_year - of_int (yr ?m)))\<rparr>"
    by (simp only: analyze_timelines_nonempty [OF events ne num] item true_div_def nz
          sum.case num_of.simps option.case if_False)
  then show ?thesis by (simp only: min) blast
qed

text \<open>
  What the analysis does away from that division: for a record whose life events all
  carry an integer year (\<open>yr e\<close> is the year of event \<open>e\<close>) and whose earliest year is
  not the current year, it returns and \<open>career_start\<close> is the least year; a record with
  the same events in any other order gets the same \<open>career_start\<close>. With no life events
  \<open>career_start\<close> is \<open>None\<close>.
\<close>

lemma career_start_away_from_boundary:
  assumes events: "dict_get data ''life_events'' (PList []) = PList evs"
    and events': "dict_get data' ''life_events'' (PList []) = PList evs'"
    and same: "set evs' = set evs"
    and years: "\<forall>e \<in> set evs. \<exists>d. e = PDict d \<and> map_of d ''year'' = Some (PInt (yr e))"
    and boundary: "evs \<noteq> [] \<longrightarrow> Min (yr ` set evs) \<noteq> current_year"
  shows "\<exists>r r'. analyze_timelines current_year data = Inr r
              \<and> analyze_timelines current_year data' = Inr r'
              \<and> career_start r = (if evs = [] then PNone else PInt (Min (yr ` set evs)))
              \<and> career_start r' = career_start r"
proof (cases "evs = []")
  case True
  with same have "evs' = []" by simp
  with True events events' show ?thesis by (simp add: analyze_timelines_empty)
next
  case False
  with same have ne': "evs' \<noteq> []" by auto
  from False boundary have b: "Min (yr ` set evs) \<noteq> current_year" by simp
  from career_start_nonempty [OF events False years b] obtain freq where
    r: "analyze_timelines current_year data
          = Inr \<lparr>career_start = PInt (Min (yr ` set evs)), milestone_frequency = freq\<rparr>" ..
  from years same have years': "\<forall>e \<in> set evs'. \<exists>d. e = PDict d \<and> map_of d ''year'' = Some (PInt (yr e))"
    by simp
  from b same have b': "Min (yr ` set evs') \<noteq> current_year" by simp
  from career_start_nonempty [OF events' ne' years' b'] same obtain freq' where
    r': "analyze_timelines current_year data'
          = Inr \<lparr>career_start = PInt (Min (yr ` set evs)), milestone_frequency = freq'\<rparr>"
    by auto
  from r r' False show ?thesis by simp
qed

lemma career_start_away_from_boundary_example:
  "\<exists>r r'. analyze_timelines 2026
            [(''life_events'', PList [PDict [(''year'', PInt 2018)], PDict [(''year'', PInt 2020)],
                                     PDict [(''year'', PInt 2019)]])] = Inr r
        \<and> analyze_timelines 2026
            [(''life_events'', PList [PDict [(''year'', PInt 2020)], PDict [(''year'', PInt 2019)],
                                     PDict [(''year'', PInt 2018)]])] = Inr r'
        \<and> career_start r = PInt 2018 \<and> career_start r' = career_start r"
proof -
  let ?evs = "[PDict [(''year'', PInt 2018)], PDict [(''year'', PInt 2020)],
               PDict [(''year'', PInt 2019)]]"
  let ?evs' = "[PDict [(''year'', PInt 2020)], PDict [(''year'', PInt 2019)],
                PDict [(''year'', PInt 2018)]]"
  let ?yr = "\<lambda>e. case e of PDict d \<Rightarrow> (case map_of d ''year'' of Some (PInt y) \<Rightarrow> y | _ \<Rightarrow> 0)
                         | _ \<Rightarrow> (0::int)"
  have 1: "dict_get [(''life_events'', PList ?evs)] ''life_events'' (PList []) = PList ?evs"
    and 2: "dict_get [(''life_events'', PList ?evs')] ''life_events'' (PList []) = PList ?evs'"
    by (simp_all add: dict_get_def)
  have 3: "set ?evs' = set ?evs" by auto
  have 4: "\<forall>e \<in> set ?evs. \<exists>d. e = PDict d \<and> map_of d ''year'' = Some (PInt (?yr e))"
    by simp
  have 5: "?evs \<noteq> [] \<longrightarrow> Min (?yr ` set ?evs) \<noteq> 2026" by simp
  have 6: "Min (?yr ` set ?evs) = 2018" by simp
  from career_start_away_from_boundary [OF 1 2 3 4 5] 6 show ?thesis by simp
qed

text \<open>
  C9. The claim: for every creator record whose life events all carry a year, the
  timeline analysis reports \<open>career_start\<close> equal to the least year. The record below
  holds two life events, each valid as a \<open>LifeEventObject\<close>, both dated the current year
  2026. \<open>career_start\<close> is read as 2026 on one line of the returned dict, and the next
  line divides by \<open>datetime.now().year - events[0]["year"]\<close>, which is 0: the analysis
  raises ZeroDivisionError and reports no \<open>career_start\<close> at all.
\<close>

theorem career_start_lost_to_zero_division:
  "analyze_timelines 2026
     [(''life_events'', PList
        [PDict [(''name'', PStr ''Channel Launch''),
                (''year'', PInt 2026),
                (''description'', PStr ''Started the channel''),
                (''impact'', PStr ''Began the career''),
                (''category'', PNone)],
         PDict [(''name'', PStr ''First Sponsor''),
                (''year'', PInt 2026),
                (''description'', PStr ''Signed a sponsorship''),
                (''impact'', PStr ''Funded the production''),
                (''category'', PStr ''financial'')]])]
   = Inl ZeroDivisionError"
  by (simp add: analyze_timelines_def dict_get_def true_div_def year_key_def)

section \<open>Properties of the schema\<close>

text \<open>
  C8. For a \<open>ChallengeObject\<close> input whose description, learnings and duration meet
  their constraints: a year outside \<open>[2005, current_year]\<close> makes the construction fail
  with a ValidationError (naming the field \<open>year\<close>), a year inside the range makes it
  succeed with the record of the four fields.
\<close>

theorem ChallengeObject_year_range:
  assumes "10 \<le> length d" and "length d \<le> 200"
    and "10 \<le> length l" and "length l \<le> 500"
    and "dur = None \<or> (\<exists>m. dur = Some m \<and> 1 \<le> m \<and> m \<le> 120)"
  shows "(y < 2005 \<or> current_year < y \<longrightarrow>
            new_ChallengeObject current_year d y l dur = Inl (ValidationError [''year'']))
       \<and> (2005 \<le> y \<and> y \<le> current_year \<longrightarrow>
            new_ChallengeObject current_year d y l dur
              = Inr \<lparr>description = d, year = y, learnings = l, duration = dur\<rparr>)"
  using assms by (auto simp: new_ChallengeObject_def field_errors_def)

theorem ChallengeObject_year_range_witness:
  "new_ChallengeObject 2026 ''Lost the channel'' 2004 ''Keep backups of everything'' (Some 6)
     = Inl (ValidationError [''year''])
   \<and> new_ChallengeObject 2026 ''Lost the channel'' 2027 ''Keep backups of everything'' (Some 6)
     = Inl (ValidationError [''year''])
   \<and> new_ChallengeObject 2026 ''Lost the channel'' 2005 ''Keep backups of everything'' None
     = Inr \<lparr>description = ''Lost the channel'', year = 2005,
            learnings = ''Keep backups of everything'', duration = None\<rparr>
   \<and> new_ChallengeObject 2026 ''Lost the channel'' 2026 ''Keep backups of everything'' (Some 6)
     = Inr \<lparr>description = ''Lost the channel'', year = 2026,
            learnings = ''Keep backups of everything'', duration = Some 6\<rparr>"
proof -
  have d: "10 \<le> length ''Lost the channel''" "length ''Lost the channel'' \<le> 200"
    and l: "10 \<le> length ''Keep backups of everything''"
           "length ''Keep backups of everything'' \<le> 500"
    by simp_all
  have m: "Some (6::int) = None \<or> (\<exists>m. Some (6::int) = Some m \<and> 1 \<le> m \<and> m \<le> 120)"
    and n: "(None::int option) = None
            \<or> (\<exists>m. (None::int option) = Some m \<and> 1 \<le> m \<and> m \<le> 120)"
    by simp_all
  from ChallengeObject_year_range [OF d l m, of 2004 2026]
       ChallengeObject_year_range [OF d l m, of 2027 2026]
       ChallengeObject_year_range [OF d l n, of 2005 2026]
       ChallengeObject_year_range [OF d l m, of 2026 2026]
  show ?thesis by simp
qed

end
